theory Spec2Isabelle
  imports Main
begin

section \<open>buttonshutdown-daemon: the program of src/main.cpp\<close>

text \<open>
  The daemon is a sequence of calls into the operating system and the wiringPi library.
  Every such call is recorded as an event; what a call returns is read from an
  environment record, one field per call whose result the program inspects. A function
  of the source becomes a function from the environment to the events it performs, in
  order, and the way it ends.
\<close>

subsection \<open>Constants of the source and of the headers it includes\<close>

definition DAEMON_NAME :: string where
  "DAEMON_NAME = ''buttonshutdown-daemon''"

definition PID_FILE :: string where
  "PID_FILE = ''/var/run/'' @ DAEMON_NAME @ ''.pid''"

definition PIN :: int where
  "PIN = 0"

definition PIN_STR :: string where
  "PIN_STR = ''0''"

definition PIDFILE_PERMISSION :: nat where
  \<comment> \<open>the octal literal 0644\<close>
  "PIDFILE_PERMISSION = 6 * 64 + 4 * 8 + 4"

definition EXIT_SUCCESS :: int where
  "EXIT_SUCCESS = 0"

definition EXIT_FAILURE :: int where
  "EXIT_FAILURE = 1"

definition STDIN_FILENO :: int where
  "STDIN_FILENO = 0"

definition STDOUT_FILENO :: int where
  "STDOUT_FILENO = 1"

definition STDERR_FILENO :: int where
  "STDERR_FILENO = 2"

text \<open>wiringPi.h: pin levels, pin modes, pull-up/down control and edge kinds.\<close>

definition LOW :: int where
  "LOW = 0"

definition HIGH :: int where
  "HIGH = 1"

definition INPUT :: int where
  "INPUT = 0"

definition PUD_DOWN :: int where
  "PUD_DOWN = 1"

definition INT_EDGE_RISING :: int where
  "INT_EDGE_RISING = 2"

subsection \<open>Events and outcomes\<close>

datatype priority = LOG_ERR | LOG_INFO

datatype open_flag = O_RDWR | O_CREAT

datatype signal_handler = Daemon_Stop_handler

datatype isr_callback = Button_Pressed_callback

datatype event =
    Setlogmask_upto priority
  | Openlog string
  | Syslog priority string
  | Geteuid
  | Stat string
  | Open_file string "open_flag list" nat
  | Lockf_tlock int
  | Fork
  | Getpid
  | Write_fd int string
  | Umask nat
  | Setsid
  | Chdir string
  | Close_fd int
  | Signal_SIGTERM signal_handler
  | WiringPiSetup
  | PinMode int int
  | PullUpDnControl int int
  | WiringPiISR int int isr_callback
  | Sleep nat
  | System string
  | DigitalRead int
  | Execl string "string list"

text \<open>
  How a path of control ends: \<open>exit(status)\<close>, a process image replaced by
  \<open>execl\<close>, the endless \<open>while (true) sleep(60)\<close> of \<open>main\<close>, the default
  action of an unhandled SIGTERM, or a function that reaches its end and returns to its
  caller.
\<close>

datatype outcome =
    Exited int
  | Replaced string "string list"
  | Idle_loop
  | Killed_by_SIGTERM
  | Returned

text \<open>
  \<open>execl\<close> returns only when it failed, and then it returns \<open>-1\<close> with
  \<open>errno\<close> set.
\<close>

datatype exec_result = Exec_ok | Exec_failed int

fun execl_return :: "exec_result \<Rightarrow> int option" where
  "execl_return Exec_ok = None"
| "execl_return (Exec_failed e) = Some (- 1)"

fun execl_errno :: "exec_result \<Rightarrow> int" where
  "execl_errno Exec_ok = 0"
| "execl_errno (Exec_failed e) = e"

datatype disposition = SIG_DFL | Handler signal_handler

record env =
  geteuid_result :: nat
  stat_result :: int
  open_result :: int
  lockf_result :: int
  fork_result :: int
  getpid_result :: int
  setsid_result :: int
  chdir_result :: int
  wiringPiSetup_result :: int
  wiringPiISR_result :: int
  system_result :: int
  digitalRead_result :: int
  execl_result :: exec_result

type_synonym behaviour = "event list \<times> outcome"

definition stop :: "event list \<Rightarrow> outcome \<Rightarrow> behaviour" where
  "stop es out = (es, out)"

definition emit :: "event list \<Rightarrow> behaviour \<Rightarrow> behaviour" where
  "emit es r = (es @ fst r, snd r)"

definition apostrophe :: char where
  "apostrophe = CHR 0x27"

definition newline :: char where
  "newline = CHR 0x0A"

subsection \<open>Formatting with \<open>%d\<close>\<close>

fun dec_nat :: "nat \<Rightarrow> string" where
  "dec_nat n =
     (if n < 10 then [''0123456789'' ! n]
      else dec_nat (n div 10) @ [''0123456789'' ! (n mod 10)])"

definition format_d :: "int \<Rightarrow> string" where
  "format_d i = (if i < 0 then ''-'' @ dec_nat (nat (- i)) else dec_nat (nat i))"

subsection \<open>The functions of main.cpp\<close>

definition disarm_command :: string where
  "disarm_command = ''/usr/local/bin/gpio edge '' @ PIN_STR @ '' none''"

definition main :: "env \<Rightarrow> behaviour" where
  "main e =
     emit [Setlogmask_upto LOG_INFO, Openlog DAEMON_NAME,
           Syslog LOG_INFO ''Daemon starting up'', Geteuid]
    (if geteuid_result e \<noteq> 0 then
       stop [Syslog LOG_ERR ''This daemon can only be run by root user, exiting'']
         (Exited EXIT_FAILURE)
     else emit [Stat ''/usr/local/bin/gpio'']
    (if stat_result e = - 1 then
       stop [Syslog LOG_ERR
               (''The program '' @ [apostrophe] @ ''/usr/local/bin/gpio'' @ [apostrophe] @ '' is missing, exiting'')]
         (Exited EXIT_FAILURE)
     else emit [Open_file PID_FILE [O_RDWR, O_CREAT] PIDFILE_PERMISSION]
    (if open_result e = - 1 then
       stop [Syslog LOG_ERR (''Could not open PID lock file '' @ PID_FILE @ '', exiting'')]
         (Exited EXIT_FAILURE)
     else emit [Lockf_tlock (open_result e)]
    (if lockf_result e = - 1 then
       stop [Syslog LOG_ERR (''Could not lock PID lock file '' @ PID_FILE @ '', exiting'')]
         (Exited EXIT_FAILURE)
     else emit [Fork]
    (if fork_result e < 0 then stop [] (Exited EXIT_FAILURE)
     else if fork_result e > 0 then stop [] (Exited EXIT_SUCCESS)
     else emit [Getpid,
                Write_fd (open_result e) (format_d (getpid_result e) @ [newline]),
                Umask 0,
                Setsid]
    (if setsid_result e < 0 then stop [] (Exited EXIT_FAILURE)
     else emit [Chdir ''/'']
    (if chdir_result e < 0 then stop [] (Exited EXIT_FAILURE)
     else emit [Close_fd STDIN_FILENO, Close_fd STDOUT_FILENO, Close_fd STDERR_FILENO,
                Signal_SIGTERM Daemon_Stop_handler,
                WiringPiSetup]
    (if wiringPiSetup_result e = - 1 then
       stop [Syslog LOG_ERR
               ([apostrophe] @ ''wiringPi'' @ [apostrophe] @ '' library couldn'' @ [apostrophe] @ ''t be initialized, exiting'')]
         (Exited EXIT_FAILURE)
     else emit [PinMode PIN INPUT,
                PullUpDnControl PIN PUD_DOWN,
                WiringPiISR PIN INT_EDGE_RISING Button_Pressed_callback]
    (if wiringPiISR_result e = - 1 then
       stop [Syslog LOG_ERR ''Unable to set interrupt handler for specified pin, exiting'']
         (Exited EXIT_FAILURE)
     else stop [] Idle_loop)))))))))"

definition Daemon_Stop :: behaviour where
  "Daemon_Stop = stop [Syslog LOG_INFO ''Stopping daemon''] (Exited EXIT_SUCCESS)"

definition Button_Pressed :: "env \<Rightarrow> behaviour" where
  "Button_Pressed e =
     emit [System disarm_command,
           Sleep 2,
           DigitalRead PIN]
    (if digitalRead_result e = LOW then
       emit [Syslog LOG_INFO ''Shutting down system'',
             Execl ''/sbin/poweroff'' [''poweroff'']]
      (case execl_return (execl_result e) of
         None \<Rightarrow> stop [] (Replaced ''/sbin/poweroff'' [''poweroff''])
       | Some r \<Rightarrow>
           emit (if r = - 1 then
                   [Syslog LOG_ERR
                      ([apostrophe] @ ''poweroff'' @ [apostrophe] @ '' program failed to run with error: ''
                         @ format_d (execl_errno (execl_result e)))]
                 else [])
             (stop [] (Exited EXIT_SUCCESS)))
     else if digitalRead_result e = HIGH then
       emit [Syslog LOG_INFO ''Restarting system'',
             Execl ''/sbin/shutdown'' [''shutdown'', ''-r'', ''now'']]
      (case execl_return (execl_result e) of
         None \<Rightarrow> stop [] (Replaced ''/sbin/shutdown'' [''shutdown'', ''-r'', ''now''])
       | Some r \<Rightarrow>
           emit (if r = - 1 then
                   [Syslog LOG_ERR
                      ([apostrophe] @ ''shutdown'' @ [apostrophe] @ '' program failed to run with error: ''
                         @ format_d (execl_errno (execl_result e)))]
                 else [])
             (stop [] (Exited EXIT_SUCCESS)))
     else stop [] (Exited EXIT_SUCCESS))"

subsection \<open>The process: asynchronous signals and interrupts\<close>

text \<open>
  The main path, the SIGTERM handler and the interrupt callback interleave. A process state
  holds the events performed so far, what is left of the main path, the disposition of
  SIGTERM (\<open>signal\<close> changes it), the edge mode of the pin (the registration sets it to
  rising, the \<open>gpio edge 0 none\<close> command sets it to none when it succeeds) and the
  state of the interrupt source. An \<open>execl\<close> that succeeds ends the process with the
  event itself; \<open>exit\<close> is a step of its own. A process starts with the default
  disposition of SIGTERM, which ends it.

  The interrupt source is wiringPi, which is not part of src/; it is modelled from the
  spec (sections 2, 4.2 and 5): while the edge mode of the pin is rising, every rising
  edge invokes the registered callback, also while earlier invocations are still in
  flight, so that the source has a list of invocations in flight, each with the calls it
  has left and the way it ends. With the edge mode none, a rising edge does nothing.

  A stimulus is one call of the main path, one call of the \<open>n\<close>-th invocation in
  flight, a SIGTERM or a rising edge of the pin; a process that has ended ignores them
  all.
\<close>

datatype dispatcher =
    No_callback
  | Waiting isr_callback
  | Running_callback isr_callback "behaviour list"

record proc =
  log :: "event list"
  main_rest :: "event list"
  main_end :: outcome
  sigterm :: disposition
  edge_rising :: bool
  dispatcher :: dispatcher
  classifications :: nat
  status :: "outcome option"

datatype stimulus = MAIN_STEP | ISR_STEP nat | SIGTERM | RISING_EDGE

definition boot :: "env \<Rightarrow> proc" where
  "boot e =
     \<lparr>log = [], main_rest = fst (main e), main_end = snd (main e), sigterm = SIG_DFL,
      edge_rising = False, dispatcher = No_callback, classifications = 0, status = None\<rparr>"

fun effect :: "env \<Rightarrow> event \<Rightarrow> proc \<Rightarrow> proc" where
  "effect e (Signal_SIGTERM h) p = p\<lparr>sigterm := Handler h\<rparr>"
| "effect e (WiringPiISR pin edge cb) p =
     (if wiringPiISR_result e = - 1 then p
      else p\<lparr>edge_rising := True, dispatcher := Waiting cb\<rparr>)"
| "effect e (System cmd) p =
     (if cmd = disarm_command \<and> system_result e = 0 then p\<lparr>edge_rising := False\<rparr> else p)"
| "effect e (Execl path args) p =
     (case execl_return (execl_result e) of
        None \<Rightarrow> p\<lparr>status := Some (Replaced path args)\<rparr>
      | Some r \<Rightarrow> p)"
| "effect e ev p = p"

definition perform :: "env \<Rightarrow> event \<Rightarrow> proc \<Rightarrow> proc" where
  "perform e ev p = effect e ev (p\<lparr>log := log p @ [ev]\<rparr>)"

fun callback_body :: "env \<Rightarrow> isr_callback \<Rightarrow> behaviour" where
  "callback_body e Button_Pressed_callback = Button_Pressed e"

fun handler_body :: "signal_handler \<Rightarrow> behaviour" where
  "handler_body Daemon_Stop_handler = Daemon_Stop"

definition main_step :: "env \<Rightarrow> proc \<Rightarrow> proc" where
  "main_step e p =
     (case main_rest p of
        ev # evs \<Rightarrow> perform e ev (p\<lparr>main_rest := evs\<rparr>)
      | [] \<Rightarrow>
          (case main_end p of
             Idle_loop \<Rightarrow> p\<lparr>log := log p @ [Sleep 60]\<rparr>
           | out \<Rightarrow> p\<lparr>status := Some out\<rparr>))"

text \<open>
  An invocation that returns leaves the list; the source waits again when none is left.
\<close>

definition finish :: "isr_callback \<Rightarrow> behaviour list \<Rightarrow> nat \<Rightarrow> dispatcher" where
  "finish cb bs n =
     (case take n bs @ drop (Suc n) bs of
        [] \<Rightarrow> Waiting cb
      | b # bs' \<Rightarrow> Running_callback cb (b # bs'))"

definition isr_step :: "env \<Rightarrow> nat \<Rightarrow> proc \<Rightarrow> proc" where
  "isr_step e n p =
     (case dispatcher p of
        Running_callback cb bs \<Rightarrow>
          (if n < length bs then
             (case fst (bs ! n) of
                ev # evs \<Rightarrow>
                  perform e ev (p\<lparr>dispatcher := Running_callback cb (bs[n := (evs, snd (bs ! n))])\<rparr>)
              | [] \<Rightarrow>
                  (case snd (bs ! n) of
                     Returned \<Rightarrow> p\<lparr>dispatcher := finish cb bs n\<rparr>
                   | out \<Rightarrow> p\<lparr>status := Some out\<rparr>))
           else p)
      | _ \<Rightarrow> p)"

definition deliver_SIGTERM :: "proc \<Rightarrow> proc" where
  "deliver_SIGTERM p =
     (case sigterm p of
        SIG_DFL \<Rightarrow> p\<lparr>status := Some Killed_by_SIGTERM\<rparr>
      | Handler h \<Rightarrow>
          p\<lparr>log := log p @ fst (handler_body h), status := Some (snd (handler_body h))\<rparr>)"

definition rising_edge :: "env \<Rightarrow> proc \<Rightarrow> proc" where
  "rising_edge e p =
     (if edge_rising p then
        (case dispatcher p of
           No_callback \<Rightarrow> p
         | Waiting cb \<Rightarrow>
             p\<lparr>dispatcher := Running_callback cb [callback_body e cb],
               classifications := Suc (classifications p)\<rparr>
         | Running_callback cb bs \<Rightarrow>
             p\<lparr>dispatcher := Running_callback cb (bs @ [callback_body e cb]),
               classifications := Suc (classifications p)\<rparr>)
      else p)"

fun step :: "env \<Rightarrow> stimulus \<Rightarrow> proc \<Rightarrow> proc" where
  "step e s p =
     (if status p \<noteq> None then p
      else case s of
             MAIN_STEP \<Rightarrow> main_step e p
           | ISR_STEP n \<Rightarrow> isr_step e n p
           | SIGTERM \<Rightarrow> deliver_SIGTERM p
           | RISING_EDGE \<Rightarrow> rising_edge e p)"

fun run :: "env \<Rightarrow> stimulus list \<Rightarrow> proc \<Rightarrow> proc" where
  "run e [] p = p"
| "run e (s # ss) p = run e ss (step e s p)"

subsection \<open>Observations on event lists\<close>

fun is_sample :: "event \<Rightarrow> bool" where
  "is_sample (DigitalRead pin) = True"
| "is_sample ev = False"

fun is_exec :: "event \<Rightarrow> bool" where
  "is_exec (Execl path args) = True"
| "is_exec ev = False"

fun is_write :: "event \<Rightarrow> bool" where
  "is_write (Write_fd fd s) = True"
| "is_write ev = False"

fun is_open :: "event \<Rightarrow> bool" where
  "is_open (Open_file path flags mode) = True"
| "is_open ev = False"

fun is_arming :: "event \<Rightarrow> bool" where
  "is_arming (WiringPiISR pin edge cb) = True"
| "is_arming ev = False"


fun is_err_log :: "event \<Rightarrow> bool" where
  "is_err_log (Syslog LOG_ERR msg) = True"
| "is_err_log ev = False"

fun is_running :: "dispatcher \<Rightarrow> bool" where
  "is_running (Running_callback cb bs) = True"
| "is_running d = False"

fun is_logging :: "event \<Rightarrow> bool" where
  "is_logging (Setlogmask_upto pr) = True"
| "is_logging (Openlog ident) = True"
| "is_logging (Syslog pr msg) = True"
| "is_logging ev = False"

text \<open>\<open>precedes a b evs\<close>: \<open>b\<close> occurs in \<open>evs\<close> and \<open>a\<close> occurs before its first occurrence.\<close>

definition precedes :: "event \<Rightarrow> event \<Rightarrow> event list \<Rightarrow> bool" where
  "precedes a b evs = (b \<in> set evs \<and> a \<in> set (takeWhile (\<lambda>x. x \<noteq> b) evs))"

text \<open>
  The checks of the startup whose failure the program reports: each is a call whose
  result makes \<open>main\<close> log and leave.
\<close>

fun check_fails :: "env \<Rightarrow> event \<Rightarrow> bool" where
  "check_fails e Geteuid = (geteuid_result e \<noteq> 0)"
| "check_fails e (Stat path) = (stat_result e = - 1)"
| "check_fails e (Open_file path flags mode) = (open_result e = - 1)"
| "check_fails e (Lockf_tlock fd) = (lockf_result e = - 1)"
| "check_fails e WiringPiSetup = (wiringPiSetup_result e = - 1)"
| "check_fails e (WiringPiISR pin edge cb) = (wiringPiISR_result e = - 1)"
| "check_fails e ev = False"

text \<open>The one write of \<open>main\<close>: the formatted process id, to the descriptor of the PID file.\<close>

definition pid_write :: "env \<Rightarrow> event" where
  "pid_write e = Write_fd (open_result e) (format_d (getpid_result e) @ [newline])"

text \<open>Reading a string of decimal digits back, to say what \<open>format_d\<close> produces.\<close>

definition dec_value :: "string \<Rightarrow> nat" where
  "dec_value s = foldl (\<lambda>a c. 10 * a + (of_char c - 48)) 0 s"

definition is_digit :: "char \<Rightarrow> bool" where
  "is_digit c = (48 \<le> (of_char c :: nat) \<and> (of_char c :: nat) \<le> 57)"

subsection \<open>Invariants of the process\<close>

text \<open>Once \<open>signal\<close> has been called, the disposition of SIGTERM is the handler.\<close>

definition handler_inv :: "proc \<Rightarrow> bool" where
  "handler_inv p =
     (Signal_SIGTERM Daemon_Stop_handler \<in> set (log p) \<longrightarrow>
        sigterm p = Handler Daemon_Stop_handler)"

text \<open>
  The writes performed and still to come are those of \<open>main\<close>; at most one registration
  is pending; classifications have been counted exactly when invocations are in flight,
  and an invocation in flight has no registration and no write left and does not return.
\<close>

definition quiet :: "behaviour \<Rightarrow> bool" where
  "quiet b = (filter is_arming (fst b) = [] \<and> filter is_write (fst b) = [] \<and> snd b \<noteq> Returned)"

definition proc_inv :: "env \<Rightarrow> proc \<Rightarrow> bool" where
  "proc_inv e p =
     (filter is_write (log p) @ filter is_write (main_rest p) = filter is_write (fst (main e)) \<and>
      length (filter is_arming (main_rest p)) \<le> 1 \<and>
      (case dispatcher p of
         No_callback \<Rightarrow> classifications p = 0
       | Waiting cb \<Rightarrow> classifications p = 0 \<and> filter is_arming (main_rest p) = []
       | Running_callback cb bs \<Rightarrow>
           0 < classifications p \<and> bs \<noteq> [] \<and> filter is_arming (main_rest p) = [] \<and>
           list_all quiet bs))"

text \<open>
  While no invocation has made a call yet, the disarm command has not run and nothing has
  slept for 2 seconds; after the first call of an invocation, the disarm command has run
  and the edge mode is none whenever the command succeeded.
\<close>

definition fresh :: "env \<Rightarrow> behaviour \<Rightarrow> bool" where
  "fresh e b = (fst b = fst (Button_Pressed e))"

definition untouched :: "event list \<Rightarrow> bool" where
  "untouched evs = (Sleep 2 \<notin> set evs \<and> System disarm_command \<notin> set evs)"

definition disarm_inv :: "env \<Rightarrow> proc \<Rightarrow> bool" where
  "disarm_inv e p =
     (untouched (main_rest p) \<and>
      (case dispatcher p of
         Running_callback cb bs \<Rightarrow>
           (list_all (fresh e) bs \<and> untouched (log p)) \<or>
           (System disarm_command \<in> set (log p) \<and>
            (system_result e = 0 \<longrightarrow> \<not> edge_rising p))
       | _ \<Rightarrow> untouched (log p)))"


subsection \<open>Concrete environments\<close>

definition nominal_env :: env where
  "nominal_env =
     \<lparr>geteuid_result = 0, stat_result = 0, open_result = 3, lockf_result = 0,
      fork_result = 0, getpid_result = 1234, setsid_result = 1234, chdir_result = 0,
      wiringPiSetup_result = 0, wiringPiISR_result = 0, system_result = 0,
      digitalRead_result = 0, execl_result = Exec_ok\<rparr>"

text \<open>
  The 21 calls of a startup that succeeds, and a press of the button after it: the rising
  edge and the first two calls of the classifier, so that the 2-second delay has begun.
\<close>

definition startup :: "stimulus list" where
  "startup = replicate 21 MAIN_STEP"

definition press :: "stimulus list" where
  "press = startup @ [RISING_EDGE, ISR_STEP 0, ISR_STEP 0]"

section \<open>Facts about the model\<close>

subsection \<open>The event lists of the three functions\<close>

lemma main_arming: "length (filter is_arming (fst (main e))) \<le> 1"
  by (simp add: main_def emit_def stop_def)

lemma main_writes:
  "filter is_write (fst (main e)) = [] \<or> filter is_write (fst (main e)) = [pid_write e]"
  by (simp add: main_def emit_def stop_def pid_write_def)

lemma main_no_delay: "Sleep 2 \<notin> set (fst (main e))"
  by (simp add: main_def emit_def stop_def)

lemma Button_Pressed_quiet:
  "filter is_arming (fst (Button_Pressed e)) = []"
  "filter is_write (fst (Button_Pressed e)) = []"
  "snd (Button_Pressed e) \<noteq> Returned"
  by (cases "execl_result e"; simp add: Button_Pressed_def emit_def stop_def)+

lemma Button_Pressed_head:
  "\<exists>evs. fst (Button_Pressed e) = System disarm_command # Sleep 2 # evs \<and> Sleep 2 \<notin> set evs"
  by (cases "execl_result e") (simp_all add: Button_Pressed_def emit_def stop_def)

lemma handler_body_eq: "handler_body h = Daemon_Stop"
  by (cases h) simp

lemma callback_body_eq: "callback_body e cb = Button_Pressed e"
  by (cases cb) simp

lemma only_handler: "h = Daemon_Stop_handler"
  by (cases h) simp

subsection \<open>Decimal digits\<close>

lemma digit_cases: "d < 10 \<Longrightarrow> d \<in> {0, 1, 2, 3, 4, 5, 6, 7, 8, 9 :: nat}"
  by auto

lemma digit_char: "d < 10 \<Longrightarrow> (of_char (''0123456789'' ! d) :: nat) = 48 + d"
  using digit_cases [of d] by auto

lemma digit_is_digit: "d < 10 \<Longrightarrow> is_digit (''0123456789'' ! d)"
  by (simp add: is_digit_def digit_char)

lemma dec_value_snoc: "dec_value (s @ [c]) = 10 * dec_value s + (of_char c - 48)"
  by (simp add: dec_value_def)

lemma dec_nat_unfold:
  "\<not> n < 10 \<Longrightarrow> dec_nat n = dec_nat (n div 10) @ [''0123456789'' ! (n mod 10)]"
  by (subst dec_nat.simps) simp

lemma dec_nat_value: "dec_value (dec_nat n) = n"
proof (induction n rule: dec_nat.induct)
  case (1 n)
  show ?case
  proof (cases "n < 10")
    case True
    then show ?thesis by (simp add: dec_value_def digit_char)
  next
    case False
    with 1 have "dec_value (dec_nat (n div 10)) = n div 10" by simp
    with dec_nat_unfold [OF False] show ?thesis
      by (simp add: dec_value_snoc digit_char del: dec_nat.simps)
  qed
qed

lemma dec_nat_digits: "list_all is_digit (dec_nat n)"
proof (induction n rule: dec_nat.induct)
  case (1 n)
  show ?case
  proof (cases "n < 10")
    case True
    then show ?thesis by (simp add: digit_is_digit)
  next
    case False
    with 1 have "list_all is_digit (dec_nat (n div 10))" by simp
    with dec_nat_unfold [OF False] show ?thesis
      by (simp add: digit_is_digit del: dec_nat.simps)
  qed
qed

subsection \<open>What one event changes\<close>

lemma effect_log [simp]: "log (effect e ev p) = log p"
  by (cases "(e, ev, p)" rule: effect.cases) (simp_all split: option.splits)

lemma effect_main_rest [simp]: "main_rest (effect e ev p) = main_rest p"
  by (cases "(e, ev, p)" rule: effect.cases) (simp_all split: option.splits)

lemma effect_classifications [simp]: "classifications (effect e ev p) = classifications p"
  by (cases "(e, ev, p)" rule: effect.cases) (simp_all split: option.splits)

lemma effect_sigterm:
  "sigterm (effect e ev p) = (case ev of Signal_SIGTERM h \<Rightarrow> Handler h | _ \<Rightarrow> sigterm p)"
  by (cases "(e, ev, p)" rule: effect.cases) (simp_all split: option.splits)

lemma effect_dispatcher: "\<not> is_arming ev \<Longrightarrow> dispatcher (effect e ev p) = dispatcher p"
  by (cases "(e, ev, p)" rule: effect.cases) (simp_all split: option.splits)

lemma effect_edge: "\<not> is_arming ev \<Longrightarrow> edge_rising (effect e ev p) \<Longrightarrow> edge_rising p"
  by (cases "(e, ev, p)" rule: effect.cases) (simp_all split: option.splits if_splits)

lemma perform_log [simp]: "log (perform e ev p) = log p @ [ev]"
  by (simp add: perform_def)

lemma perform_main_rest [simp]: "main_rest (perform e ev p) = main_rest p"
  by (simp add: perform_def)

lemma perform_classifications [simp]: "classifications (perform e ev p) = classifications p"
  by (simp add: perform_def)

lemma perform_sigterm:
  "sigterm (perform e ev p) = (case ev of Signal_SIGTERM h \<Rightarrow> Handler h | _ \<Rightarrow> sigterm p)"
  by (simp add: perform_def effect_sigterm split: event.splits)

lemma perform_dispatcher: "\<not> is_arming ev \<Longrightarrow> dispatcher (perform e ev p) = dispatcher p"
  by (simp add: perform_def effect_dispatcher)

lemma perform_edge: "\<not> is_arming ev \<Longrightarrow> edge_rising (perform e ev p) \<Longrightarrow> edge_rising p"
  using effect_edge [of ev e "p\<lparr>log := log p @ [ev]\<rparr>"] by (simp add: perform_def)

lemma perform_arming:
  "is_arming ev \<Longrightarrow>
     dispatcher (perform e ev p) = dispatcher p \<or> (\<exists>cb. dispatcher (perform e ev p) = Waiting cb)"
  by (cases ev) (simp_all add: perform_def)

lemma perform_disarm:
  "edge_rising (perform e (System disarm_command) p) = (system_result e \<noteq> 0 \<and> edge_rising p)"
  by (simp add: perform_def)

subsection \<open>Runs of the process\<close>

lemma run_append: "run e (ss @ ss') p = run e ss' (run e ss p)"
  by (induction ss arbitrary: p) simp_all

lemma run_ended: "status p \<noteq> None \<Longrightarrow> run e ss p = p"
  by (induction ss arbitrary: p) simp_all

subsection \<open>Lists of invocations\<close>

lemma list_all_update: "list_all P bs \<Longrightarrow> P x \<Longrightarrow> list_all P (bs[n := x])"
  by (induction bs arbitrary: n) (auto split: nat.splits)

lemma list_all_nth: "list_all P bs \<Longrightarrow> n < length bs \<Longrightarrow> P (bs ! n)"
  by (simp add: list_all_length)

lemma quiet_Button_Pressed: "quiet (Button_Pressed e)"
  by (simp add: quiet_def Button_Pressed_quiet)

lemma quiet_step:
  "quiet b \<Longrightarrow> fst b = ev # evs \<Longrightarrow>
     \<not> is_arming ev \<and> \<not> is_write ev \<and> quiet (evs, snd b)"
  by (auto simp: quiet_def split: if_splits)

subsection \<open>The handler stays installed\<close>

lemma perform_handler_inv: "handler_inv p \<Longrightarrow> handler_inv (perform e ev p)"
  by (cases ev) (auto simp: handler_inv_def perform_sigterm only_handler)

lemma handler_inv_upd:
  "handler_inv p \<Longrightarrow> handler_inv (p\<lparr>main_rest := x\<rparr>)"
  "handler_inv p \<Longrightarrow> handler_inv (p\<lparr>dispatcher := d\<rparr>)"
  "handler_inv p \<Longrightarrow> handler_inv (p\<lparr>status := st\<rparr>)"
  "handler_inv p \<Longrightarrow> handler_inv (p\<lparr>classifications := n\<rparr>)"
  "handler_inv p \<Longrightarrow> handler_inv (p\<lparr>log := log p @ [Sleep 60]\<rparr>)"
  "handler_inv p \<Longrightarrow> handler_inv (p\<lparr>log := log p @ [Syslog pr m]\<rparr>)"
  by (auto simp: handler_inv_def)

lemma step_handler_inv:
  assumes inv: "handler_inv p"
  shows "handler_inv (step e s p)"
proof (cases "status p = None")
  case False
  with inv show ?thesis by simp
next
  case True
  show ?thesis
  proof (cases s)
    case MAIN_STEP
    with True inv show ?thesis
      by (auto simp: main_step_def handler_inv_upd perform_handler_inv
          split: list.splits outcome.splits)
  next
    case (ISR_STEP n)
    with True inv show ?thesis
      by (auto simp: isr_step_def handler_inv_upd perform_handler_inv
          split: dispatcher.splits list.splits outcome.splits)
  next
    case SIGTERM
    with True inv show ?thesis
      by (auto simp: deliver_SIGTERM_def handler_inv_def handler_body_eq Daemon_Stop_def stop_def
          split: disposition.splits)
  next
    case RISING_EDGE
    with True inv show ?thesis
      by (auto simp: rising_edge_def handler_inv_def split: dispatcher.splits)
  qed
qed

lemma run_handler_inv: "handler_inv p \<Longrightarrow> handler_inv (run e ss p)"
  by (induction ss arbitrary: p) (simp_all add: step_handler_inv del: step.simps)

lemma boot_handler_inv: "handler_inv (boot e)"
  by (simp add: handler_inv_def boot_def)

subsection \<open>One registration, one write, no invocation that returns\<close>

lemma boot_inv: "proc_inv e (boot e)"
  using main_arming [of e] by (simp add: proc_inv_def boot_def)

lemma main_step_inv:
  assumes "proc_inv e p"
  shows "proc_inv e (main_step e p)"
proof (cases "main_rest p")
  case Nil
  with assms show ?thesis
    by (auto simp: main_step_def proc_inv_def split: outcome.splits dispatcher.splits)
next
  case (Cons ev evs)
  show ?thesis
  proof (cases "is_arming ev")
    case False
    with assms Cons show ?thesis
      by (auto simp: main_step_def proc_inv_def perform_dispatcher split: dispatcher.splits)
  next
    case True
    then have nw: "\<not> is_write ev" by (cases ev) simp_all
    from True assms Cons have rest: "filter is_arming evs = []"
      and d: "dispatcher p = No_callback" and c: "classifications p = 0"
      by (auto simp: proc_inv_def split: dispatcher.splits)
    from perform_arming [OF True, of e "p\<lparr>main_rest := evs\<rparr>"] d
    have "dispatcher (perform e ev (p\<lparr>main_rest := evs\<rparr>)) = No_callback
          \<or> (\<exists>cb. dispatcher (perform e ev (p\<lparr>main_rest := evs\<rparr>)) = Waiting cb)"
      by simp
    with assms Cons nw rest c show ?thesis
      by (auto simp: main_step_def proc_inv_def)
  qed
qed

lemma isr_step_inv:
  assumes "proc_inv e p"
  shows "proc_inv e (isr_step e n p)"
proof (cases "dispatcher p")
  case No_callback
  with assms show ?thesis by (simp add: isr_step_def)
next
  case (Waiting cb)
  with assms show ?thesis by (simp add: isr_step_def)
next
  case (Running_callback cb bs)
  show ?thesis
  proof (cases "n < length bs")
    case False
    with assms Running_callback show ?thesis by (simp add: isr_step_def)
  next
    case True
    from assms Running_callback have all: "list_all quiet bs"
      by (simp add: proc_inv_def)
    have q: "quiet (bs ! n)" by (rule list_all_nth [OF all True])
    show ?thesis
    proof (cases "fst (bs ! n)")
      case Nil
      from q have "snd (bs ! n) \<noteq> Returned" by (simp add: quiet_def)
      with assms Running_callback True Nil show ?thesis
        by (auto simp: isr_step_def proc_inv_def split: outcome.splits)
    next
      case (Cons ev evs)
      from quiet_step [OF q Cons] have na: "\<not> is_arming ev" and nw: "\<not> is_write ev"
        and q': "quiet (evs, snd (bs ! n))"
        by simp_all
      from all q' have all': "list_all quiet (bs[n := (evs, snd (bs ! n))])"
        by (rule list_all_update)
      from assms Running_callback True Cons na nw all' show ?thesis
        by (auto simp: isr_step_def proc_inv_def perform_dispatcher)
    qed
  qed
qed

lemma deliver_inv: "proc_inv e p \<Longrightarrow> proc_inv e (deliver_SIGTERM p)"
  by (auto simp: deliver_SIGTERM_def proc_inv_def handler_body_eq Daemon_Stop_def stop_def
      split: disposition.splits dispatcher.splits)

lemma rising_edge_inv: "proc_inv e p \<Longrightarrow> proc_inv e (rising_edge e p)"
  by (cases "dispatcher p")
    (auto simp: rising_edge_def proc_inv_def callback_body_eq quiet_Button_Pressed)

lemma inv_running: "proc_inv e p \<Longrightarrow> 0 < classifications p \<Longrightarrow> is_running (dispatcher p)"
  by (auto simp: proc_inv_def split: dispatcher.splits)

lemma log_writes:
  assumes "proc_inv e p"
  shows "filter is_write (log p) = [] \<or> filter is_write (log p) = [pid_write e]"
proof -
  from assms have eq: "filter is_write (log p) @ filter is_write (main_rest p)
      = filter is_write (fst (main e))"
    by (simp add: proc_inv_def)
  from main_writes [of e] show ?thesis
  proof
    assume "filter is_write (fst (main e)) = []"
    with eq show ?thesis by simp
  next
    assume "filter is_write (fst (main e)) = [pid_write e]"
    with eq have "filter is_write (log p) @ filter is_write (main_rest p) = [pid_write e]"
      by simp
    then show ?thesis by (auto simp: append_eq_Cons_conv)
  qed
qed

subsection \<open>Once the source is disarmed\<close>



subsection \<open>The edge mode once the delay has begun\<close>

lemma main_untouched: "untouched (fst (main e))"
  by (simp add: untouched_def main_def emit_def stop_def)

lemma untouched_snoc:
  "untouched evs \<Longrightarrow> ev \<noteq> Sleep 2 \<Longrightarrow> ev \<noteq> System disarm_command \<Longrightarrow> untouched (evs @ [ev])"
  by (simp add: untouched_def)

lemma boot_disarm_inv: "disarm_inv e (boot e)"
  by (simp add: disarm_inv_def boot_def main_untouched) (simp add: untouched_def)

lemma fresh_first:
  "fresh e b \<Longrightarrow> fst b = ev # evs \<Longrightarrow> ev = System disarm_command"
  using Button_Pressed_head [of e] by (auto simp: fresh_def)

lemma main_step_disarm_inv:
  assumes "proc_inv e p" and "disarm_inv e p"
  shows "disarm_inv e (main_step e p)"
proof (cases "main_rest p")
  case Nil
  with assms(2) show ?thesis
    by (auto simp: main_step_def disarm_inv_def untouched_snoc
        split: outcome.splits dispatcher.splits)
next
  case (Cons ev evs)
  with assms(2) have ne: "ev \<noteq> Sleep 2" "ev \<noteq> System disarm_command"
    and rest: "untouched evs"
    by (auto simp: disarm_inv_def untouched_def)
  show ?thesis
  proof (cases "is_arming ev")
    case True
    with assms(1) Cons have d: "dispatcher p = No_callback"
      by (auto simp: proc_inv_def split: dispatcher.splits)
    from perform_arming [OF True, of e "p\<lparr>main_rest := evs\<rparr>"] d
    have "dispatcher (perform e ev (p\<lparr>main_rest := evs\<rparr>)) = No_callback
          \<or> (\<exists>cb. dispatcher (perform e ev (p\<lparr>main_rest := evs\<rparr>)) = Waiting cb)"
      by simp
    with assms(2) Cons ne rest d show ?thesis
      by (auto simp: main_step_def disarm_inv_def untouched_snoc)
  next
    case False
    have e1: "edge_rising (perform e ev (p\<lparr>main_rest := evs\<rparr>)) \<longrightarrow> edge_rising p"
      using perform_edge [OF False, of e "p\<lparr>main_rest := evs\<rparr>"] by auto
    with assms(2) Cons ne rest False show ?thesis
      by (auto simp: main_step_def disarm_inv_def perform_dispatcher untouched_snoc
          split: dispatcher.splits)
  qed
qed

lemma isr_step_disarm_inv:
  assumes "proc_inv e p" and "disarm_inv e p"
  shows "disarm_inv e (isr_step e n p)"
proof (cases "dispatcher p")
  case No_callback
  with assms(2) show ?thesis by (simp add: isr_step_def)
next
  case (Waiting cb)
  with assms(2) show ?thesis by (simp add: isr_step_def)
next
  case (Running_callback cb bs)
  show ?thesis
  proof (cases "n < length bs")
    case False
    with assms(2) Running_callback show ?thesis by (simp add: isr_step_def)
  next
    case True
    from assms(1) Running_callback have all: "list_all quiet bs"
      by (simp add: proc_inv_def)
    have q: "quiet (bs ! n)" by (rule list_all_nth [OF all True])
    have m: "untouched (main_rest p)"
      using assms(2) by (simp add: disarm_inv_def)
    show ?thesis
    proof (cases "fst (bs ! n)")
      case Nil
      from q have "snd (bs ! n) \<noteq> Returned" by (simp add: quiet_def)
      with assms(2) Running_callback True Nil show ?thesis
        by (auto simp: isr_step_def disarm_inv_def split: outcome.splits)
    next
      case (Cons ev evs)
      let ?q = "p\<lparr>dispatcher := Running_callback cb (bs[n := (evs, snd (bs ! n))])\<rparr>"
      from quiet_step [OF q Cons] have nev: "\<not> is_arming ev" by simp
      have dq: "dispatcher (perform e ev ?q)
          = Running_callback cb (bs[n := (evs, snd (bs ! n))])"
        using perform_dispatcher [OF nev, of e ?q] by simp
      have e1: "edge_rising (perform e ev ?q) \<longrightarrow> edge_rising p"
        using perform_edge [OF nev, of e ?q] by auto
      from assms(2) Running_callback
      consider (first) "list_all (fresh e) bs"
        | (later) "System disarm_command \<in> set (log p)"
            "system_result e = 0 \<longrightarrow> \<not> edge_rising p"
        by (auto simp: disarm_inv_def)
      then have "System disarm_command \<in> set (log p @ [ev]) \<and>
          (system_result e = 0 \<longrightarrow> \<not> edge_rising (perform e ev ?q))"
      proof cases
        case first
        from list_all_nth [OF first True] Cons have "ev = System disarm_command"
          by (rule fresh_first)
        then show ?thesis by (simp add: perform_disarm)
      next
        case later
        with e1 show ?thesis by auto
      qed
      with Running_callback True Cons dq m show ?thesis
        by (simp add: isr_step_def disarm_inv_def)
    qed
  qed
qed

lemma deliver_disarm_inv: "disarm_inv e p \<Longrightarrow> disarm_inv e (deliver_SIGTERM p)"
  by (auto simp: deliver_SIGTERM_def disarm_inv_def handler_body_eq Daemon_Stop_def stop_def
      untouched_snoc split: disposition.splits dispatcher.splits)

lemma rising_edge_disarm_inv: "disarm_inv e p \<Longrightarrow> disarm_inv e (rising_edge e p)"
  by (cases "dispatcher p")
    (auto simp: rising_edge_def disarm_inv_def callback_body_eq fresh_def)

lemma step_both_inv:
  "proc_inv e p \<and> disarm_inv e p \<Longrightarrow> proc_inv e (step e s p) \<and> disarm_inv e (step e s p)"
  by (cases s)
    (simp_all add: main_step_inv isr_step_inv deliver_inv rising_edge_inv
      main_step_disarm_inv isr_step_disarm_inv deliver_disarm_inv rising_edge_disarm_inv)

lemma run_both_inv:
  "proc_inv e p \<and> disarm_inv e p \<Longrightarrow> proc_inv e (run e ss p) \<and> disarm_inv e (run e ss p)"
proof (induction ss arbitrary: p)
  case Nil
  then show ?case by simp
next
  case (Cons s ss)
  from Cons.IH [OF step_both_inv [OF Cons.prems]] show ?case by (simp del: step.simps)
qed

lemma reachable_inv: "proc_inv e (run e ss (boot e))"
  using run_both_inv [of e "boot e" ss] boot_inv boot_disarm_inv by blast



lemma delay_after_disarm:
  "disarm_inv e p \<Longrightarrow> Sleep 2 \<in> set (log p) \<Longrightarrow> System disarm_command \<in> set (log p)"
  by (cases "dispatcher p") (auto simp: disarm_inv_def untouched_def)

subsection \<open>The disarm command comes before the delay\<close>




section \<open>The button event classifier\<close>

text \<open>
  C1: whatever the pin reads after the 2-second delay, a LOW sample makes the classifier
  call \<open>execl\<close> on the power-off program and nothing else, a HIGH sample makes it call
  \<open>execl\<close> on the shutdown program with \<open>-r now\<close> and nothing else, and a call that
  succeeds replaces the process image with that program. The pin is read once, and the
  read is the third call of the classifier, right after \<open>sleep(2)\<close>.
\<close>

theorem Button_Pressed_classifies:
  "(digitalRead_result e = LOW \<longrightarrow>
      filter is_exec (fst (Button_Pressed e)) = [Execl ''/sbin/poweroff'' [''poweroff'']] \<and>
      (execl_result e = Exec_ok \<longrightarrow>
         snd (Button_Pressed e) = Replaced ''/sbin/poweroff'' [''poweroff''])) \<and>
   (digitalRead_result e = HIGH \<longrightarrow>
      filter is_exec (fst (Button_Pressed e))
        = [Execl ''/sbin/shutdown'' [''shutdown'', ''-r'', ''now'']] \<and>
      (execl_result e = Exec_ok \<longrightarrow>
         snd (Button_Pressed e) = Replaced ''/sbin/shutdown'' [''shutdown'', ''-r'', ''now''])) \<and>
   filter is_sample (fst (Button_Pressed e)) = [DigitalRead PIN] \<and>
   take 3 (fst (Button_Pressed e)) = [System disarm_command, Sleep 2, DigitalRead PIN]"
  by (cases "execl_result e") (simp_all add: Button_Pressed_def emit_def stop_def LOW_def HIGH_def)

theorem Button_Pressed_classifies_witness:
  "digitalRead_result nominal_env = LOW \<and> execl_result nominal_env = Exec_ok \<and>
   filter is_exec (fst (Button_Pressed nominal_env)) = [Execl ''/sbin/poweroff'' [''poweroff'']] \<and>
   snd (Button_Pressed nominal_env) = Replaced ''/sbin/poweroff'' [''poweroff''] \<and>
   digitalRead_result (nominal_env\<lparr>digitalRead_result := 1\<rparr>) = HIGH \<and>
   filter is_exec (fst (Button_Pressed (nominal_env\<lparr>digitalRead_result := 1\<rparr>)))
     = [Execl ''/sbin/shutdown'' [''shutdown'', ''-r'', ''now'']] \<and>
   snd (Button_Pressed (nominal_env\<lparr>digitalRead_result := 1\<rparr>))
     = Replaced ''/sbin/shutdown'' [''shutdown'', ''-r'', ''now'']"
  using Button_Pressed_classifies [of nominal_env]
    Button_Pressed_classifies [of "nominal_env\<lparr>digitalRead_result := 1\<rparr>"]
  by (simp add: nominal_env_def LOW_def HIGH_def)

text \<open>
  C3: when \<open>execl\<close> returns, with \<open>errno = err\<close>, the classifier logs at ERR severity
  a message that ends with the decimal \<open>err\<close> and then leaves with \<open>exit(EXIT_SUCCESS)\<close>,
  which is status 0; this holds for the power-off action and for the restart action.
\<close>

theorem exec_failure_logged:
  "execl_result e = Exec_failed err \<Longrightarrow>
   (digitalRead_result e = LOW \<longrightarrow>
      Button_Pressed e =
        ([System disarm_command, Sleep 2, DigitalRead PIN,
          Syslog LOG_INFO ''Shutting down system'',
          Execl ''/sbin/poweroff'' [''poweroff''],
          Syslog LOG_ERR ([apostrophe] @ ''poweroff'' @ [apostrophe]
                            @ '' program failed to run with error: '' @ format_d err)],
         Exited EXIT_SUCCESS)) \<and>
   (digitalRead_result e = HIGH \<longrightarrow>
      Button_Pressed e =
        ([System disarm_command, Sleep 2, DigitalRead PIN,
          Syslog LOG_INFO ''Restarting system'',
          Execl ''/sbin/shutdown'' [''shutdown'', ''-r'', ''now''],
          Syslog LOG_ERR ([apostrophe] @ ''shutdown'' @ [apostrophe]
                            @ '' program failed to run with error: '' @ format_d err)],
         Exited EXIT_SUCCESS)) \<and>
   EXIT_SUCCESS = 0"
  by (simp add: Button_Pressed_def emit_def stop_def LOW_def HIGH_def EXIT_SUCCESS_def)

theorem exec_failure_logged_witness:
  "execl_result (nominal_env\<lparr>execl_result := Exec_failed 2\<rparr>) = Exec_failed 2 \<and>
   digitalRead_result (nominal_env\<lparr>execl_result := Exec_failed 2\<rparr>) = LOW \<and>
   Button_Pressed (nominal_env\<lparr>execl_result := Exec_failed 2\<rparr>) =
     ([System ''/usr/local/bin/gpio edge 0 none'', Sleep 2, DigitalRead 0,
       Syslog LOG_INFO ''Shutting down system'',
       Execl ''/sbin/poweroff'' [''poweroff''],
       Syslog LOG_ERR ([apostrophe] @ ''poweroff'' @ [apostrophe]
                         @ '' program failed to run with error: 2'')],
      Exited 0) \<and>
   execl_result (nominal_env\<lparr>digitalRead_result := 1, execl_result := Exec_failed 13\<rparr>)
     = Exec_failed 13 \<and>
   digitalRead_result (nominal_env\<lparr>digitalRead_result := 1, execl_result := Exec_failed 13\<rparr>)
     = HIGH \<and>
   Button_Pressed (nominal_env\<lparr>digitalRead_result := 1, execl_result := Exec_failed 13\<rparr>) =
     ([System ''/usr/local/bin/gpio edge 0 none'', Sleep 2, DigitalRead 0,
       Syslog LOG_INFO ''Restarting system'',
       Execl ''/sbin/shutdown'' [''shutdown'', ''-r'', ''now''],
       Syslog LOG_ERR ([apostrophe] @ ''shutdown'' @ [apostrophe]
                         @ '' program failed to run with error: 13'')],
      Exited 0)"
  using exec_failure_logged [of "nominal_env\<lparr>execl_result := Exec_failed 2\<rparr>" 2]
    exec_failure_logged
      [of "nominal_env\<lparr>digitalRead_result := 1, execl_result := Exec_failed 13\<rparr>" 13]
  by (simp add: nominal_env_def LOW_def HIGH_def PIN_def disarm_command_def PIN_STR_def
      EXIT_SUCCESS_def format_d_def)

text \<open>
  C9: the status that \<open>system\<close> returns for the disarm command is not inspected: the
  classifier behaves the same for every status, its next two calls are \<open>sleep(2)\<close> and
  the read of the pin, nothing is logged at ERR severity before the privileged action is
  tried, and for a LOW or HIGH sample the action is tried.
\<close>

theorem disarm_result_ignored:
  "Button_Pressed (e\<lparr>system_result := r\<rparr>) = Button_Pressed e \<and>
   take 3 (fst (Button_Pressed e)) = [System disarm_command, Sleep 2, DigitalRead PIN] \<and>
   filter is_err_log (take 5 (fst (Button_Pressed e))) = [] \<and>
   (digitalRead_result e = LOW \<or> digitalRead_result e = HIGH \<longrightarrow>
      length (filter is_exec (fst (Button_Pressed e))) = 1)"
  by (cases "execl_result e") (simp_all add: Button_Pressed_def emit_def stop_def LOW_def HIGH_def)

theorem disarm_result_ignored_witness:
  "Button_Pressed (nominal_env\<lparr>system_result := 256\<rparr>) = Button_Pressed nominal_env \<and>
   digitalRead_result (nominal_env\<lparr>system_result := 256\<rparr>) = LOW \<and>
   length (filter is_exec (fst (Button_Pressed (nominal_env\<lparr>system_result := 256\<rparr>)))) = 1"
  using disarm_result_ignored [where e = nominal_env and r = 256]
    disarm_result_ignored [where e = "nominal_env\<lparr>system_result := 256\<rparr>" and r = 256]
  by (simp add: nominal_env_def LOW_def)

section \<open>Startup\<close>

text \<open>
  C5: when the effective user id is not 0, \<open>main\<close> opens the log, logs the start, reads
  the effective user id, logs at ERR severity and leaves with \<open>exit(EXIT_FAILURE)\<close>:
  these five calls are all it performs, so there is no check of the helper, no open or lock
  of the PID file, no fork or detachment and no call into wiringPi.
\<close>

theorem privilege_gate:
  "geteuid_result e \<noteq> 0 \<Longrightarrow>
   main e =
     ([Setlogmask_upto LOG_INFO, Openlog DAEMON_NAME, Syslog LOG_INFO ''Daemon starting up'',
       Geteuid, Syslog LOG_ERR ''This daemon can only be run by root user, exiting''],
      Exited EXIT_FAILURE) \<and>
   EXIT_FAILURE \<noteq> 0"
  by (simp add: main_def emit_def stop_def EXIT_FAILURE_def)

theorem privilege_gate_witness:
  "geteuid_result (nominal_env\<lparr>geteuid_result := 1000\<rparr>) \<noteq> 0 \<and>
   filter (\<lambda>ev. \<not> is_logging ev) (fst (main (nominal_env\<lparr>geteuid_result := 1000\<rparr>)))
     = [Geteuid] \<and>
   snd (main (nominal_env\<lparr>geteuid_result := 1000\<rparr>)) = Exited 1"
  using privilege_gate [of "nominal_env\<lparr>geteuid_result := 1000\<rparr>"]
  by (simp add: nominal_env_def EXIT_FAILURE_def)

text \<open>
  C7: a startup check that fails is fatal. When the effective user is not root, or
  \<open>stat\<close> of the helper, \<open>open\<close> of the PID file or \<open>lockf\<close> on it returns
  \<open>-1\<close>, or, in the detached child, \<open>wiringPiSetup\<close> or \<open>wiringPiISR\<close> returns
  \<open>-1\<close>, then \<open>main\<close> ends with \<open>exit(EXIT_FAILURE)\<close>, a status other than 0; its
  last call is a \<open>syslog\<close> at ERR severity and the call before that is the check that
  failed; no other failed check occurs in the run, so nothing is tried again.
\<close>

theorem startup_violation_fatal:
  "geteuid_result e \<noteq> 0 \<or> stat_result e = - 1 \<or> open_result e = - 1 \<or> lockf_result e = - 1 \<or>
   (fork_result e = 0 \<and> 0 \<le> setsid_result e \<and> 0 \<le> chdir_result e \<and>
    (wiringPiSetup_result e = - 1 \<or> wiringPiISR_result e = - 1)) \<Longrightarrow>
   snd (main e) = Exited EXIT_FAILURE \<and> EXIT_FAILURE \<noteq> 0 \<and>
   is_err_log (last (fst (main e))) \<and>
   check_fails e (last (butlast (fst (main e)))) \<and>
   length (filter (check_fails e) (fst (main e))) = 1"
proof -
  assume v: "geteuid_result e \<noteq> 0 \<or> stat_result e = - 1 \<or> open_result e = - 1 \<or>
    lockf_result e = - 1 \<or>
    (fork_result e = 0 \<and> 0 \<le> setsid_result e \<and> 0 \<le> chdir_result e \<and>
     (wiringPiSetup_result e = - 1 \<or> wiringPiISR_result e = - 1))"
  then consider
      (not_root) "geteuid_result e \<noteq> 0"
    | (no_helper) "geteuid_result e = 0" "stat_result e = - 1"
    | (no_open) "geteuid_result e = 0" "stat_result e \<noteq> - 1" "open_result e = - 1"
    | (no_lock) "geteuid_result e = 0" "stat_result e \<noteq> - 1" "open_result e \<noteq> - 1"
        "lockf_result e = - 1"
    | (no_gpio) "geteuid_result e = 0" "stat_result e \<noteq> - 1" "open_result e \<noteq> - 1"
        "lockf_result e \<noteq> - 1" "fork_result e = 0" "0 \<le> setsid_result e"
        "0 \<le> chdir_result e" "wiringPiSetup_result e = - 1"
    | (no_isr) "geteuid_result e = 0" "stat_result e \<noteq> - 1" "open_result e \<noteq> - 1"
        "lockf_result e \<noteq> - 1" "fork_result e = 0" "0 \<le> setsid_result e"
        "0 \<le> chdir_result e" "wiringPiSetup_result e \<noteq> - 1" "wiringPiISR_result e = - 1"
    by blast
  then show ?thesis
    by cases (simp_all add: main_def emit_def stop_def EXIT_FAILURE_def)
qed

theorem startup_violation_fatal_witness:
  "snd (main (nominal_env\<lparr>geteuid_result := 1000\<rparr>)) = Exited 1 \<and>
   snd (main (nominal_env\<lparr>stat_result := - 1\<rparr>)) = Exited 1 \<and>
   snd (main (nominal_env\<lparr>open_result := - 1\<rparr>)) = Exited 1 \<and>
   snd (main (nominal_env\<lparr>lockf_result := - 1\<rparr>)) = Exited 1 \<and>
   snd (main (nominal_env\<lparr>wiringPiSetup_result := - 1\<rparr>)) = Exited 1 \<and>
   snd (main (nominal_env\<lparr>wiringPiISR_result := - 1\<rparr>)) = Exited 1 \<and>
   last (fst (main (nominal_env\<lparr>wiringPiISR_result := - 1\<rparr>)))
     = Syslog LOG_ERR ''Unable to set interrupt handler for specified pin, exiting''"
  using startup_violation_fatal [of "nominal_env\<lparr>geteuid_result := 1000\<rparr>"]
    startup_violation_fatal [of "nominal_env\<lparr>stat_result := - 1\<rparr>"]
    startup_violation_fatal [of "nominal_env\<lparr>open_result := - 1\<rparr>"]
    startup_violation_fatal [of "nominal_env\<lparr>lockf_result := - 1\<rparr>"]
    startup_violation_fatal [of "nominal_env\<lparr>wiringPiSetup_result := - 1\<rparr>"]
    startup_violation_fatal [of "nominal_env\<lparr>wiringPiISR_result := - 1\<rparr>"]
  by (simp add: nominal_env_def EXIT_FAILURE_def main_def emit_def stop_def)

text \<open>
  C4, as the code has it: in a run that passes the checks and continues as the child of
  the fork, the process id is written once, after the fork and before the rest of the
  detachment: the write precedes \<open>setsid\<close>, and precedes \<open>chdir("/")\<close> and the closing
  of the three standard descriptors whenever the run gets to them.
\<close>

theorem pid_written_before_detach:
  "geteuid_result e = 0 \<Longrightarrow> stat_result e \<noteq> - 1 \<Longrightarrow> open_result e \<noteq> - 1 \<Longrightarrow>
   lockf_result e \<noteq> - 1 \<Longrightarrow> fork_result e = 0 \<Longrightarrow>
   filter is_write (fst (main e)) = [pid_write e] \<and>
   precedes Fork (pid_write e) (fst (main e)) \<and>
   precedes (pid_write e) Setsid (fst (main e)) \<and>
   (Chdir ''/'' \<in> set (fst (main e)) \<longrightarrow> precedes (pid_write e) (Chdir ''/'') (fst (main e))) \<and>
   (Close_fd STDIN_FILENO \<in> set (fst (main e)) \<longrightarrow>
      precedes (pid_write e) (Close_fd STDIN_FILENO) (fst (main e)) \<and>
      precedes (pid_write e) (Close_fd STDOUT_FILENO) (fst (main e)) \<and>
      precedes (pid_write e) (Close_fd STDERR_FILENO) (fst (main e)))"
  by (simp add: main_def emit_def stop_def precedes_def pid_write_def
        STDIN_FILENO_def STDOUT_FILENO_def STDERR_FILENO_def)

theorem pid_written_before_detach_witness:
  "geteuid_result nominal_env = 0 \<and> stat_result nominal_env \<noteq> - 1 \<and>
   open_result nominal_env \<noteq> - 1 \<and> lockf_result nominal_env \<noteq> - 1 \<and>
   fork_result nominal_env = 0 \<and>
   Chdir ''/'' \<in> set (fst (main nominal_env)) \<and>
   Close_fd STDIN_FILENO \<in> set (fst (main nominal_env)) \<and>
   filter is_write (fst (main nominal_env)) = [Write_fd 3 (''1234'' @ [newline])] \<and>
   precedes (pid_write nominal_env) Setsid (fst (main nominal_env)) \<and>
   precedes (pid_write nominal_env) (Chdir ''/'') (fst (main nominal_env)) \<and>
   precedes (pid_write nominal_env) (Close_fd STDIN_FILENO) (fst (main nominal_env)) \<and>
   precedes (pid_write nominal_env) (Close_fd STDOUT_FILENO) (fst (main nominal_env)) \<and>
   precedes (pid_write nominal_env) (Close_fd STDERR_FILENO) (fst (main nominal_env))"
proof -
  have h: "geteuid_result nominal_env = 0 \<and> stat_result nominal_env \<noteq> - 1 \<and>
      open_result nominal_env \<noteq> - 1 \<and> lockf_result nominal_env \<noteq> - 1 \<and>
      fork_result nominal_env = 0"
    by (simp add: nominal_env_def)
  have m: "Chdir ''/'' \<in> set (fst (main nominal_env)) \<and>
      Close_fd STDIN_FILENO \<in> set (fst (main nominal_env))"
    by (simp add: nominal_env_def main_def emit_def stop_def)
  have w: "pid_write nominal_env = Write_fd 3 (''1234'' @ [newline])"
    by (simp add: pid_write_def nominal_env_def format_d_def)
  from h have "filter is_write (fst (main nominal_env)) = [pid_write nominal_env] \<and>
      precedes (pid_write nominal_env) Setsid (fst (main nominal_env)) \<and>
      (Chdir ''/'' \<in> set (fst (main nominal_env)) \<longrightarrow>
         precedes (pid_write nominal_env) (Chdir ''/'') (fst (main nominal_env))) \<and>
      (Close_fd STDIN_FILENO \<in> set (fst (main nominal_env)) \<longrightarrow>
         precedes (pid_write nominal_env) (Close_fd STDIN_FILENO) (fst (main nominal_env)) \<and>
         precedes (pid_write nominal_env) (Close_fd STDOUT_FILENO) (fst (main nominal_env)) \<and>
         precedes (pid_write nominal_env) (Close_fd STDERR_FILENO) (fst (main nominal_env)))"
    using pid_written_before_detach [of nominal_env] by blast
  with h m w show ?thesis by simp
qed

text \<open>
  C4, as it is stated, fails on a startup that succeeds: the process id is written while
  none of \<open>setsid\<close>, \<open>chdir("/")\<close> and the three \<open>close\<close> calls has happened yet.
\<close>

theorem detach_before_pid_write_counterexample:
  "pid_write nominal_env \<in> set (fst (main nominal_env)) \<and>
   \<not> precedes Setsid (pid_write nominal_env) (fst (main nominal_env)) \<and>
   \<not> precedes (Chdir ''/'') (pid_write nominal_env) (fst (main nominal_env)) \<and>
   \<not> precedes (Close_fd STDIN_FILENO) (pid_write nominal_env) (fst (main nominal_env)) \<and>
   \<not> precedes (Close_fd STDOUT_FILENO) (pid_write nominal_env) (fst (main nominal_env)) \<and>
   \<not> precedes (Close_fd STDERR_FILENO) (pid_write nominal_env) (fst (main nominal_env))"
  by (simp add: main_def emit_def stop_def precedes_def pid_write_def nominal_env_def
        STDIN_FILENO_def STDOUT_FILENO_def STDERR_FILENO_def)

text \<open>
  C8: in a run that passes the checks and continues as the child of the fork, \<open>main\<close>
  opens \<open>/var/run/buttonshutdown-daemon.pid\<close> once, with \<open>O_RDWR | O_CREAT\<close> and mode
  0644, and writes once, to the descriptor that \<open>open\<close> returned: the process id
  formatted with \<open>%d\<close> and a newline, which for a process id that is not negative is a
  string of decimal digits whose value is the process id. The classifier and the SIGTERM
  handler write nothing, and however the process goes on, the writes it has performed are
  none or that single one.
\<close>

theorem pid_file_written_once:
  "geteuid_result e = 0 \<Longrightarrow> stat_result e \<noteq> - 1 \<Longrightarrow> open_result e \<noteq> - 1 \<Longrightarrow>
   lockf_result e \<noteq> - 1 \<Longrightarrow> fork_result e = 0 \<Longrightarrow>
   filter is_open (fst (main e))
     = [Open_file ''/var/run/buttonshutdown-daemon.pid'' [O_RDWR, O_CREAT] PIDFILE_PERMISSION] \<and>
   PIDFILE_PERMISSION = 6 * 8 * 8 + 4 * 8 + 4 \<and>
   filter is_write (fst (main e))
     = [Write_fd (open_result e) (format_d (getpid_result e) @ [newline])] \<and>
   newline = CHR 0x0A \<and>
   (0 \<le> getpid_result e \<longrightarrow>
      list_all is_digit (format_d (getpid_result e)) \<and>
      int (dec_value (format_d (getpid_result e))) = getpid_result e) \<and>
   filter is_write (fst (Button_Pressed e)) = [] \<and>
   filter is_write (fst Daemon_Stop) = [] \<and>
   (filter is_write (log (run e ss (boot e))) = [] \<or>
    filter is_write (log (run e ss (boot e)))
      = [Write_fd (open_result e) (format_d (getpid_result e) @ [newline])])"
proof -
  assume h: "geteuid_result e = 0" "stat_result e \<noteq> - 1" "open_result e \<noteq> - 1"
    "lockf_result e \<noteq> - 1" "fork_result e = 0"
  have a: "filter is_open (fst (main e))
      = [Open_file ''/var/run/buttonshutdown-daemon.pid'' [O_RDWR, O_CREAT] PIDFILE_PERMISSION]"
    using h by (simp add: main_def emit_def stop_def PID_FILE_def DAEMON_NAME_def)
  have b: "PIDFILE_PERMISSION = 6 * 8 * 8 + 4 * 8 + 4"
    by (simp add: PIDFILE_PERMISSION_def)
  have c: "filter is_write (fst (main e))
      = [Write_fd (open_result e) (format_d (getpid_result e) @ [newline])]"
    using h by (simp add: main_def emit_def stop_def)
  have d: "0 \<le> getpid_result e \<longrightarrow>
      list_all is_digit (format_d (getpid_result e)) \<and>
      int (dec_value (format_d (getpid_result e))) = getpid_result e"
    by (simp add: format_d_def dec_nat_value dec_nat_digits del: dec_nat.simps)
  have f: "filter is_write (fst Daemon_Stop) = []"
    by (simp add: Daemon_Stop_def stop_def)
  have g: "filter is_write (log (run e ss (boot e))) = [] \<or>
      filter is_write (log (run e ss (boot e)))
        = [Write_fd (open_result e) (format_d (getpid_result e) @ [newline])]"
    using log_writes [OF reachable_inv, of e ss] by (simp add: pid_write_def)
  from a b c d f g Button_Pressed_quiet(2) [of e] show ?thesis
    by (simp add: newline_def)
qed

theorem pid_file_written_once_witness:
  "geteuid_result nominal_env = 0 \<and> stat_result nominal_env \<noteq> - 1 \<and>
   open_result nominal_env \<noteq> - 1 \<and> lockf_result nominal_env \<noteq> - 1 \<and>
   fork_result nominal_env = 0 \<and> 0 \<le> getpid_result nominal_env \<and>
   filter is_open (fst (main nominal_env))
     = [Open_file ''/var/run/buttonshutdown-daemon.pid'' [O_RDWR, O_CREAT] 420] \<and>
   filter is_write (fst (main nominal_env)) = [Write_fd 3 (''1234'' @ [CHR 0x0A])] \<and>
   dec_value (format_d (getpid_result nominal_env)) = 1234 \<and>
   filter is_write (log (run nominal_env (press @ replicate 4 (ISR_STEP 0)) (boot nominal_env)))
     = [Write_fd 3 (''1234'' @ [CHR 0x0A])]"
proof -
  have h: "geteuid_result nominal_env = 0 \<and> stat_result nominal_env \<noteq> - 1 \<and>
      open_result nominal_env \<noteq> - 1 \<and> lockf_result nominal_env \<noteq> - 1 \<and>
      fork_result nominal_env = 0 \<and> 0 \<le> getpid_result nominal_env"
    by (simp add: nominal_env_def)
  have v: "open_result nominal_env = 3 \<and> getpid_result nominal_env = 1234"
    by (simp add: nominal_env_def)
  have f: "format_d 1234 = ''1234''"
    by (simp add: format_d_def)
  have n: "filter is_write (log (run nominal_env (press @ replicate 4 (ISR_STEP 0)) (boot nominal_env)))
      \<noteq> []"
    by code_simp
  from h v n pid_file_written_once [of nominal_env "press @ replicate 4 (ISR_STEP 0)"]
  show ?thesis by (simp add: PIDFILE_PERMISSION_def f)
qed

section \<open>The process as a whole\<close>




text \<open>
  C6, as the code has it: \<open>main\<close> installs the SIGTERM handler after the detachment and
  before it sets wiringPi up. From then on, at any point at which the daemon is still
  running (before the interrupt is registered, in the idle loop or during the 2-second
  delay of the classifier), a SIGTERM makes the process log \<open>Stopping daemon\<close> at INFO
  severity and end with \<open>exit(EXIT_SUCCESS)\<close>, status 0; whatever is delivered after
  it changes nothing.
\<close>

theorem sigterm_after_registration:
  "status (run e ss (boot e)) = None \<Longrightarrow>
   Signal_SIGTERM Daemon_Stop_handler \<in> set (log (run e ss (boot e))) \<Longrightarrow>
   run e (ss @ SIGTERM # ss') (boot e) =
     (run e ss (boot e))
       \<lparr>log := log (run e ss (boot e)) @ [Syslog LOG_INFO ''Stopping daemon''],
        status := Some (Exited EXIT_SUCCESS)\<rparr> \<and>
   EXIT_SUCCESS = 0"
proof -
  let ?p = "run e ss (boot e)"
  assume running: "status ?p = None"
    and registered: "Signal_SIGTERM Daemon_Stop_handler \<in> set (log ?p)"
  have "handler_inv ?p"
    by (rule run_handler_inv [OF boot_handler_inv])
  with registered have h: "sigterm ?p = Handler Daemon_Stop_handler"
    by (simp add: handler_inv_def)
  have "step e SIGTERM ?p =
          ?p\<lparr>log := log ?p @ [Syslog LOG_INFO ''Stopping daemon''],
             status := Some (Exited EXIT_SUCCESS)\<rparr>"
    using running h by (simp add: deliver_SIGTERM_def Daemon_Stop_def stop_def)
  then show ?thesis
    by (simp add: run_append run_ended EXIT_SUCCESS_def del: step.simps)
qed

theorem sigterm_after_registration_witness:
  "status (run nominal_env (replicate 17 MAIN_STEP) (boot nominal_env)) = None \<and>
   Signal_SIGTERM Daemon_Stop_handler
     \<in> set (log (run nominal_env (replicate 17 MAIN_STEP) (boot nominal_env))) \<and>
   status (run nominal_env (replicate 17 MAIN_STEP @ SIGTERM # [MAIN_STEP, RISING_EDGE, ISR_STEP 0])
             (boot nominal_env)) = Some (Exited 0) \<and>
   status (run nominal_env (startup @ replicate 3 MAIN_STEP) (boot nominal_env)) = None \<and>
   Signal_SIGTERM Daemon_Stop_handler
     \<in> set (log (run nominal_env (startup @ replicate 3 MAIN_STEP) (boot nominal_env))) \<and>
   status (run nominal_env ((startup @ replicate 3 MAIN_STEP) @ SIGTERM # [RISING_EDGE, ISR_STEP 0])
             (boot nominal_env)) = Some (Exited 0) \<and>
   status (run nominal_env press (boot nominal_env)) = None \<and>
   Signal_SIGTERM Daemon_Stop_handler \<in> set (log (run nominal_env press (boot nominal_env))) \<and>
   status (run nominal_env (press @ SIGTERM # [ISR_STEP 0, ISR_STEP 0, ISR_STEP 0]) (boot nominal_env))
     = Some (Exited 0) \<and>
   log (run nominal_env (press @ SIGTERM # [ISR_STEP 0, ISR_STEP 0, ISR_STEP 0]) (boot nominal_env))
     = log (run nominal_env press (boot nominal_env)) @ [Syslog LOG_INFO ''Stopping daemon'']"
proof -
  have a: "status (run nominal_env (replicate 17 MAIN_STEP) (boot nominal_env)) = None \<and>
      Signal_SIGTERM Daemon_Stop_handler
        \<in> set (log (run nominal_env (replicate 17 MAIN_STEP) (boot nominal_env)))"
    by code_simp
  have b: "status (run nominal_env (startup @ replicate 3 MAIN_STEP) (boot nominal_env)) = None \<and>
      Signal_SIGTERM Daemon_Stop_handler
        \<in> set (log (run nominal_env (startup @ replicate 3 MAIN_STEP) (boot nominal_env)))"
    by code_simp
  have c: "status (run nominal_env press (boot nominal_env)) = None \<and>
      Signal_SIGTERM Daemon_Stop_handler \<in> set (log (run nominal_env press (boot nominal_env)))"
    by code_simp
  from a b c
    sigterm_after_registration
      [of nominal_env "replicate 17 MAIN_STEP" "[MAIN_STEP, RISING_EDGE, ISR_STEP 0]"]
    sigterm_after_registration
      [of nominal_env "startup @ replicate 3 MAIN_STEP" "[RISING_EDGE, ISR_STEP 0]"]
    sigterm_after_registration [of nominal_env press "[ISR_STEP 0, ISR_STEP 0, ISR_STEP 0]"]
  show ?thesis by (simp add: EXIT_SUCCESS_def)
qed

text \<open>
  C6, as it is stated, fails for a signal that arrives before \<open>main\<close> has installed the
  handler: after the first eight calls of a startup (up to the fork) SIGTERM has its
  default action, so the process is killed, with no \<open>Stopping daemon\<close> log entry and
  no exit status 0.
\<close>

theorem sigterm_any_point_counterexample:
  "status (run nominal_env (replicate 8 MAIN_STEP @ [SIGTERM]) (boot nominal_env))
     = Some Killed_by_SIGTERM \<and>
   status (run nominal_env (replicate 8 MAIN_STEP @ [SIGTERM]) (boot nominal_env))
     \<noteq> Some (Exited EXIT_SUCCESS) \<and>
   Syslog LOG_INFO ''Stopping daemon''
     \<notin> set (log (run nominal_env (replicate 8 MAIN_STEP @ [SIGTERM]) (boot nominal_env)))"
  by code_simp

text \<open>
  C10: no path through the classifier returns to its caller: it ends in a process image
  replaced by the power-off or the shutdown program, or in \<open>exit(EXIT_SUCCESS)\<close>. So
  in the process, once a classification has begun the interrupt source has an invocation
  in flight for good: no invocation ends by returning.
\<close>

theorem Button_Pressed_never_returns:
  "snd (Button_Pressed e) \<noteq> Returned \<and>
   (snd (Button_Pressed e) = Exited EXIT_SUCCESS \<or>
    snd (Button_Pressed e) = Replaced ''/sbin/poweroff'' [''poweroff''] \<or>
    snd (Button_Pressed e) = Replaced ''/sbin/shutdown'' [''shutdown'', ''-r'', ''now'']) \<and>
   (0 < classifications (run e ss (boot e)) \<longrightarrow> is_running (dispatcher (run e ss (boot e))))"
proof -
  have a: "snd (Button_Pressed e) \<noteq> Returned \<and>
     (snd (Button_Pressed e) = Exited EXIT_SUCCESS \<or>
      snd (Button_Pressed e) = Replaced ''/sbin/poweroff'' [''poweroff''] \<or>
      snd (Button_Pressed e) = Replaced ''/sbin/shutdown'' [''shutdown'', ''-r'', ''now''])"
    by (cases "execl_result e")
      (simp_all add: Button_Pressed_def emit_def stop_def LOW_def HIGH_def)
  have b: "0 < classifications (run e ss (boot e)) \<longrightarrow>
      is_running (dispatcher (run e ss (boot e)))"
    using inv_running [OF reachable_inv, of e ss] by blast
  from a b show ?thesis by blast
qed

theorem Button_Pressed_never_returns_witness:
  "0 < classifications
         (run (nominal_env\<lparr>execl_result := Exec_failed 2\<rparr>) (press @ replicate 5 (ISR_STEP 0))
            (boot (nominal_env\<lparr>execl_result := Exec_failed 2\<rparr>))) \<and>
   is_running
     (dispatcher
        (run (nominal_env\<lparr>execl_result := Exec_failed 2\<rparr>) (press @ replicate 5 (ISR_STEP 0))
           (boot (nominal_env\<lparr>execl_result := Exec_failed 2\<rparr>)))) \<and>
   status
     (run (nominal_env\<lparr>execl_result := Exec_failed 2\<rparr>) (press @ replicate 5 (ISR_STEP 0))
        (boot (nominal_env\<lparr>execl_result := Exec_failed 2\<rparr>))) = Some (Exited 0)"
proof -
  have h: "0 < classifications
         (run (nominal_env\<lparr>execl_result := Exec_failed 2\<rparr>) (press @ replicate 5 (ISR_STEP 0))
            (boot (nominal_env\<lparr>execl_result := Exec_failed 2\<rparr>))) \<and>
      status
        (run (nominal_env\<lparr>execl_result := Exec_failed 2\<rparr>) (press @ replicate 5 (ISR_STEP 0))
           (boot (nominal_env\<lparr>execl_result := Exec_failed 2\<rparr>))) = Some (Exited 0)"
    by code_simp
  from h Button_Pressed_never_returns
      [of "nominal_env\<lparr>execl_result := Exec_failed 2\<rparr>" "press @ replicate 5 (ISR_STEP 0)"]
  show ?thesis by blast
qed

end
